theory Spec2Isabelle
  imports Main "HOL-Library.Char_ord" "HOL-Library.List_Lexorder" "HOL-Library.Multiset"
begin

section \<open>Python strings and integers\<close>

text \<open>
  A Python \<open>str\<close> is modelled as a \<open>string\<close> with one \<open>char\<close> per code point, so the
  model covers the code points below 256. \<open>str.strip()\<close> without argument removes leading
  and trailing whitespace; below 256 the whitespace code points are 9..13, 28..32, 133
  and 160.
\<close>

definition is_space :: "char \<Rightarrow> bool" where
  "is_space c = (of_char c \<in> {9, 10, 11, 12, 13, 28, 29, 30, 31, 32, 133, 160 :: nat})"

definition strip :: "string \<Rightarrow> string" where
  "strip s = rev (dropWhile is_space (rev (dropWhile is_space s)))"

text \<open>\<open>x or y\<close> on strings: the empty string is falsy.\<close>

definition str_or :: "string \<Rightarrow> string \<Rightarrow> string" where
  "str_or x y = (if x = [] then y else x)"

text \<open>The decimal rendering of a non-negative integer, as \<open>f"{idx}"\<close> produces it.\<close>

definition digit_char :: "nat \<Rightarrow> char" where
  "digit_char d = char_of (48 + d)"

fun str_nat :: "nat \<Rightarrow> string" where
  "str_nat n = (if n < 10 then [digit_char n] else str_nat (n div 10) @ [digit_char (n mod 10)])"

declare str_nat.simps [simp del]

text \<open>\<open>str(n)\<close> for a Python integer.\<close>

definition str_int :: "int \<Rightarrow> string" where
  "str_int n = (if n < 0 then CHR ''-'' # str_nat (nat (- n)) else str_nat (nat n))"

definition is_digit :: "char \<Rightarrow> bool" where
  "is_digit c = (48 \<le> (of_char c :: nat) \<and> (of_char c :: nat) \<le> 57)"

definition digit_val :: "char \<Rightarrow> nat" where
  "digit_val c = of_char c - 48"

definition nat_of_str :: "string \<Rightarrow> nat" where
  "nat_of_str cs = foldl (\<lambda>a c. 10 * a + digit_val c) 0 cs"

text \<open>
  \<open>int(s)\<close> on a string, base 10: surrounding whitespace is dropped, one sign is
  allowed, then at least one digit; a single underscore may stand between two digits.
  Anything else raises \<open>ValueError\<close>, here \<open>None\<close>. (The limit that recent Python
  versions put on the number of digits is not modelled.)
\<close>

fun py_digits :: "string \<Rightarrow> int \<Rightarrow> int option" where
  "py_digits [] acc = Some acc"
| "py_digits (c # cs) acc =
     (if is_digit c then py_digits cs (10 * acc + int (digit_val c))
      else if c = CHR ''_'' then
        (case cs of
           [] \<Rightarrow> None
         | d # ds \<Rightarrow> if is_digit d then py_digits ds (10 * acc + int (digit_val d)) else None)
      else None)"

definition py_unsigned :: "string \<Rightarrow> int option" where
  "py_unsigned cs =
     (case cs of
        [] \<Rightarrow> None
      | c # ds \<Rightarrow> if is_digit c then py_digits ds (int (digit_val c)) else None)"

definition int_of_str :: "string \<Rightarrow> int option" where
  "int_of_str s =
     (case strip s of
        [] \<Rightarrow> None
      | c # cs \<Rightarrow>
          if c = CHR ''-'' then map_option uminus (py_unsigned cs)
          else if c = CHR ''+'' then py_unsigned cs
          else py_unsigned (c # cs))"

text \<open>
  The \<open>hours\<close> argument is text when it comes from the form and an integer when
  \<open>duplicate_selected_printer\<close> passes the stored value on.
\<close>

datatype pyval = PyStr string | PyInt int

fun py_str :: "pyval \<Rightarrow> string" where
  "py_str (PyStr s) = s"
| "py_str (PyInt n) = str_int n"

fun py_int :: "pyval \<Rightarrow> int option" where
  "py_int (PyStr s) = int_of_str s"
| "py_int (PyInt n) = Some n"

section \<open>Errors\<close>

text \<open>
  The exceptions the persistence code can raise: the class and the message. The code
  defines no exception class of its own; \<open>IntegrityError\<close> and \<open>OperationalError\<close> are
  those of the \<open>sqlite3\<close> module, \<open>ValueError\<close> and \<open>OverflowError\<close> are built in.
\<close>

datatype exc_class = ValueError | IntegrityError | OverflowError | OperationalError

datatype error = Raise exc_class string


type_synonym 'a result = "error + 'a"

text \<open>
  Binding a Python integer to a statement parameter fails outside the signed 64-bit range.
\<close>

definition sqlite_int_ok :: "int \<Rightarrow> bool" where
  "sqlite_int_ok n = (- (2 ^ 63) \<le> n \<and> n < 2 ^ 63)"

definition overflow_error :: error where
  "overflow_error = Raise OverflowError ''Python int too large to convert to SQLite INTEGER''"

section \<open>The store\<close>

text \<open>
  The two tables of \<open>initialize_database\<close>, with the current schema. A row of
  \<open>printers\<close> carries the surrogate key \<open>id\<close> (here \<open>db_id\<close>) and the seven data
  columns; a row of \<open>service_logs\<close> carries \<open>id\<close> (here \<open>log_id\<close>), the owner's
  surrogate key, the note and the timestamp text. The \<open>AUTOINCREMENT\<close> counters of the
  two tables are part of the store.
\<close>

record printer =
  db_id :: int
  printer_id :: string
  name :: string
  manufacturer :: string
  model :: string
  hours :: int
  nozzle_type :: string
  ams :: int

record service_log =
  log_id :: int
  printer_id_fk :: int
  note_text :: string
  created_at :: string

record store =
  printers :: "printer list"
  service_logs :: "service_log list"
  printers_seq :: int
  service_logs_seq :: int

definition empty_store :: store where
  "empty_store = \<lparr>printers = [], service_logs = [], printers_seq = 0, service_logs_seq = 0\<rparr>"

text \<open>
  A connection carries the per-connection setting \<open>PRAGMA foreign_keys\<close>. SQLite starts
  every new connection with foreign-key enforcement off; \<open>sqlite3.connect\<close> does not
  change that, so \<open>get_connection\<close> returns a connection with the setting off.
\<close>

record connection =
  foreign_keys :: bool

definition get_connection :: connection where
  "get_connection = \<lparr>foreign_keys = False\<rparr>"


section \<open>ensure\_unique\_printer\_id\<close>

text \<open>\<open>SELECT 1 FROM printers WHERE printer_id = ? LIMIT 1\<close>: is there such a row.\<close>

definition select_printer_id_exists :: "store \<Rightarrow> string \<Rightarrow> bool" where
  "select_printer_id_exists s candidate = (\<exists>p \<in> set (printers s). printer_id p = candidate)"

text \<open>
  The \<open>while True\<close> loop of \<open>ensure_unique_printer_id\<close>. It may run forever as far as
  its text goes, so a run that does not return is the value \<open>None\<close>. The loop returns the
  candidate together with the final value of \<open>idx\<close>, which is the number of
  \<open>SELECT\<close> probes the loop has executed.
\<close>

partial_function (option) probe_loop :: "store \<Rightarrow> string \<Rightarrow> nat \<Rightarrow> string \<Rightarrow> (string \<times> nat) option" where
  "probe_loop s base idx candidate =
     (if \<not> select_printer_id_exists s candidate then Some (candidate, idx)
      else probe_loop s base (idx + 1) (base @ ''-'' @ str_nat (idx + 1)))"

definition ensure_unique_printer_id_probes :: "store \<Rightarrow> string \<Rightarrow> (string \<times> nat) option" where
  "ensure_unique_printer_id_probes s base_printer_id =
     (let base = str_or (strip base_printer_id) ''printer'' in probe_loop s base 1 base)"

definition ensure_unique_printer_id :: "store \<Rightarrow> string \<Rightarrow> string option" where
  "ensure_unique_printer_id s base_printer_id =
     map_option fst (ensure_unique_printer_id_probes s base_printer_id)"

text \<open>
  The sequence the specification describes: the bare base first, then base-2, base-3, ...
  The \<open>k\<close>-th candidate, counting from 1.
\<close>

definition spec_candidate :: "string \<Rightarrow> nat \<Rightarrow> string" where
  "spec_candidate base k = (if k = 1 then base else base @ ''-'' @ str_nat k)"

definition spec_base :: "string \<Rightarrow> string" where
  "spec_base b = (if strip b = [] then ''printer'' else strip b)"

declare probe_loop.simps [code]

section \<open>Persistence operations on printers\<close>

text \<open>
  \<open>hours_val = int(hours) if str(hours).strip() != "" else 0\<close>, with the
  \<open>ValueError\<close> of \<open>int\<close> replaced by the operation's own.
\<close>

definition hours_val :: "pyval \<Rightarrow> int result" where
  "hours_val hours' =
     (if strip (py_str hours') \<noteq> [] then
        (case py_int hours' of
           None \<Rightarrow> Inl (Raise ValueError ''Hours must be an integer'')
         | Some n \<Rightarrow> Inr n)
      else Inr 0)"

text \<open>
  The row id an \<open>AUTOINCREMENT\<close> table gives to a new row: one more than the largest id
  ever used. (The table running out of 64-bit ids is not modelled.)
\<close>

definition next_rowid :: "int \<Rightarrow> int list \<Rightarrow> int" where
  "next_rowid seq ids = 1 + fold max ids seq"

text \<open>
  \<open>INSERT INTO printers (printer_id, name, manufacturer, model, hours, nozzle_type, ams)
  VALUES (?, ?, ?, ?, ?, ?, ?)\<close>. The integer parameter is bound first; the \<open>UNIQUE\<close>
  constraint on \<open>printer_id\<close> is checked by the statement. The two \<open>NOT NULL\<close> columns
  always receive text.
\<close>

definition sql_insert_printer ::
  "store \<Rightarrow> string \<Rightarrow> string \<Rightarrow> string \<Rightarrow> string \<Rightarrow> int \<Rightarrow> string \<Rightarrow> int \<Rightarrow> store result" where
  "sql_insert_printer s pid nm manu mdl hrs noz a =
     (if \<not> sqlite_int_ok hrs then Inl overflow_error
      else if \<exists>p \<in> set (printers s). printer_id p = pid then
        Inl (Raise IntegrityError ''UNIQUE constraint failed: printers.printer_id'')
      else
        (let new_id = next_rowid (printers_seq s) (map db_id (printers s)) in
         Inr (s\<lparr>printers := printers s @
                  [\<lparr>db_id = new_id, printer_id = pid, name = nm, manufacturer = manu,
                    model = mdl, hours = hrs, nozzle_type = noz, ams = a\<rparr>],
                printers_seq := new_id\<rparr>)))"

text \<open>
  Every operation runs its statement inside \<open>with get_connection() as conn\<close>, which
  commits when the block ends normally and rolls back when it raises: a failed operation
  returns the store it was given.
\<close>

definition insert_printer ::
  "store \<Rightarrow> string \<Rightarrow> string \<Rightarrow> string \<Rightarrow> string \<Rightarrow> pyval \<Rightarrow> string option \<Rightarrow> bool
     \<Rightarrow> unit result \<times> store" where
  "insert_printer s printer_id' name' manufacturer' model' hours' nozzle_type' ams' =
     (case hours_val hours' of
        Inl e \<Rightarrow> (Inl e, s)
      | Inr hv \<Rightarrow>
          (case sql_insert_printer s (strip printer_id') (strip name') (strip manufacturer')
                  (strip model') hv
                  (strip (case nozzle_type' of None \<Rightarrow> [] | Some n \<Rightarrow> str_or n []))
                  (if ams' then 1 else 0) of
             Inl e \<Rightarrow> (Inl e, s)
           | Inr s' \<Rightarrow> (Inr (), s')))"

text \<open>
  \<open>UPDATE printers SET printer_id = ?, ... WHERE id = ?\<close>. The statement changes the
  rows whose id matches, none when there is no such row, and fails when a changed row
  would share its \<open>printer_id\<close> with another row.
\<close>

definition sql_update_printer ::
  "store \<Rightarrow> int \<Rightarrow> string \<Rightarrow> string \<Rightarrow> string \<Rightarrow> string \<Rightarrow> int \<Rightarrow> string \<Rightarrow> int \<Rightarrow> store result" where
  "sql_update_printer s i pid nm manu mdl hrs noz a =
     (if \<not> sqlite_int_ok hrs \<or> \<not> sqlite_int_ok i then Inl overflow_error
      else if (\<exists>p \<in> set (printers s). db_id p = i)
            \<and> (\<exists>q \<in> set (printers s). db_id q \<noteq> i \<and> printer_id q = pid) then
        Inl (Raise IntegrityError ''UNIQUE constraint failed: printers.printer_id'')
      else
        Inr (s\<lparr>printers :=
                 map (\<lambda>p. if db_id p = i
                           then p\<lparr>printer_id := pid, name := nm, manufacturer := manu,
                                  model := mdl, hours := hrs, nozzle_type := noz, ams := a\<rparr>
                           else p) (printers s)\<rparr>))"

definition update_printer ::
  "store \<Rightarrow> int \<Rightarrow> string \<Rightarrow> string \<Rightarrow> string \<Rightarrow> string \<Rightarrow> pyval \<Rightarrow> string option \<Rightarrow> bool
     \<Rightarrow> unit result \<times> store" where
  "update_printer s db_id' printer_id' name' manufacturer' model' hours' nozzle_type' ams' =
     (case hours_val hours' of
        Inl e \<Rightarrow> (Inl e, s)
      | Inr hv \<Rightarrow>
          (case sql_update_printer s db_id' (strip printer_id') (strip name')
                  (strip manufacturer') (strip model') hv
                  (strip (case nozzle_type' of None \<Rightarrow> [] | Some n \<Rightarrow> str_or n []))
                  (if ams' then 1 else 0) of
             Inl e \<Rightarrow> (Inl e, s)
           | Inr s' \<Rightarrow> (Inr (), s')))"

text \<open>
  \<open>DELETE FROM printers WHERE id = ?\<close>. The \<open>ON DELETE CASCADE\<close> clause of
  \<open>service_logs\<close> acts only on a connection that has foreign-key enforcement on, and
  only when a printer row is deleted.
\<close>

definition sql_delete_printer :: "connection \<Rightarrow> store \<Rightarrow> int \<Rightarrow> store result" where
  "sql_delete_printer conn s i =
     (if \<not> sqlite_int_ok i then Inl overflow_error
      else
        Inr (s\<lparr>printers := filter (\<lambda>p. db_id p \<noteq> i) (printers s),
               service_logs :=
                 (if foreign_keys conn \<and> (\<exists>p \<in> set (printers s). db_id p = i)
                  then filter (\<lambda>l. printer_id_fk l \<noteq> i) (service_logs s)
                  else service_logs s)\<rparr>))"

definition delete_printer :: "store \<Rightarrow> int \<Rightarrow> unit result \<times> store" where
  "delete_printer s db_id' =
     (let conn = get_connection in
      case sql_delete_printer conn s db_id' of
        Inl e \<Rightarrow> (Inl e, s)
      | Inr s' \<Rightarrow> (Inr (), s'))"

section \<open>Persistence operations on service logs\<close>

text \<open>
  \<open>INSERT INTO service_logs (printer_id_fk, note) VALUES (?, ?)\<close>; \<open>created_at\<close> takes
  its default, the store's clock reading \<open>now\<close>. The foreign key is checked only on a
  connection that has foreign-key enforcement on.
\<close>

definition sql_insert_log :: "connection \<Rightarrow> store \<Rightarrow> string \<Rightarrow> int \<Rightarrow> string \<Rightarrow> store result" where
  "sql_insert_log conn s now i txt =
     (if \<not> sqlite_int_ok i then Inl overflow_error
      else if foreign_keys conn \<and> \<not> (\<exists>p \<in> set (printers s). db_id p = i) then
        Inl (Raise IntegrityError ''FOREIGN KEY constraint failed'')
      else
        (let new_id = next_rowid (service_logs_seq s) (map log_id (service_logs s)) in
         Inr (s\<lparr>service_logs := service_logs s @
                  [\<lparr>log_id = new_id, printer_id_fk = i, note_text = txt, created_at = now\<rparr>],
                service_logs_seq := new_id\<rparr>)))"

definition insert_log :: "store \<Rightarrow> string \<Rightarrow> int \<Rightarrow> string \<Rightarrow> unit result \<times> store" where
  "insert_log s now db_id' note' =
     (let conn = get_connection in
      case sql_insert_log conn s now db_id' (strip note') of
        Inl e \<Rightarrow> (Inl e, s)
      | Inr s' \<Rightarrow> (Inr (), s'))"

text \<open>\<open>UPDATE service_logs SET note = ? WHERE id = ?\<close>.\<close>

definition sql_update_log :: "store \<Rightarrow> string \<Rightarrow> int \<Rightarrow> store result" where
  "sql_update_log s txt i =
     (if \<not> sqlite_int_ok i then Inl overflow_error
      else
        Inr (s\<lparr>service_logs :=
                 map (\<lambda>l. if log_id l = i then l\<lparr>note_text := txt\<rparr> else l) (service_logs s)\<rparr>))"

definition update_log :: "store \<Rightarrow> int \<Rightarrow> string \<Rightarrow> unit result \<times> store" where
  "update_log s log_id' note' =
     (case sql_update_log s (strip note') log_id' of
        Inl e \<Rightarrow> (Inl e, s)
      | Inr s' \<Rightarrow> (Inr (), s'))"

text \<open>\<open>DELETE FROM service_logs WHERE id = ?\<close>.\<close>

definition sql_delete_log :: "store \<Rightarrow> int \<Rightarrow> store result" where
  "sql_delete_log s i =
     (if \<not> sqlite_int_ok i then Inl overflow_error
      else Inr (s\<lparr>service_logs := filter (\<lambda>l. log_id l \<noteq> i) (service_logs s)\<rparr>))"

definition delete_log :: "store \<Rightarrow> int \<Rightarrow> unit result \<times> store" where
  "delete_log s log_id' =
     (case sql_delete_log s log_id' of
        Inl e \<Rightarrow> (Inl e, s)
      | Inr s' \<Rightarrow> (Inr (), s'))"

text \<open>The invariant of the data model: every log's owner is a stored printer.\<close>

definition no_orphan_logs :: "store \<Rightarrow> bool" where
  "no_orphan_logs s =
     (\<forall>l \<in> set (service_logs s). \<exists>p \<in> set (printers s). db_id p = printer_id_fk l)"

text \<open>The stores the operations can produce, starting from the freshly created one.\<close>

inductive reachable :: "store \<Rightarrow> bool" where
  reach_empty: "reachable empty_store"
| reach_insert_printer: "reachable s \<Longrightarrow> reachable (snd (insert_printer s pid nm manu mdl h noz a))"
| reach_update_printer: "reachable s \<Longrightarrow> reachable (snd (update_printer s i pid nm manu mdl h noz a))"
| reach_delete_printer: "reachable s \<Longrightarrow> reachable (snd (delete_printer s i))"
| reach_insert_log: "reachable s \<Longrightarrow> reachable (snd (insert_log s now i txt))"
| reach_update_log: "reachable s \<Longrightarrow> reachable (snd (update_log s i txt))"
| reach_delete_log: "reachable s \<Longrightarrow> reachable (snd (delete_log s i))"

section \<open>Sorted retrieval\<close>

text \<open>
  \<open>ORDER BY\<close> as a stable insertion sort under the comparison the clause names. Text
  compares by code points, the shorter of two strings first when one begins the other
  (SQLite's default collation); integers compare by value.
\<close>

fun insert_by :: "('a \<Rightarrow> 'a \<Rightarrow> bool) \<Rightarrow> 'a \<Rightarrow> 'a list \<Rightarrow> 'a list" where
  "insert_by le x [] = [x]"
| "insert_by le x (y # ys) = (if le x y then x # y # ys else y # insert_by le x ys)"

definition order_by :: "('a \<Rightarrow> 'a \<Rightarrow> bool) \<Rightarrow> 'a list \<Rightarrow> 'a list" where
  "order_by le xs = foldr (insert_by le) xs []"

definition by_name :: "printer \<Rightarrow> printer \<Rightarrow> bool" where
  "by_name a b = (name a \<le> name b)"

definition by_hours_asc_name :: "printer \<Rightarrow> printer \<Rightarrow> bool" where
  "by_hours_asc_name a b = (hours a < hours b \<or> (hours a = hours b \<and> name a \<le> name b))"

definition by_hours_desc_name :: "printer \<Rightarrow> printer \<Rightarrow> bool" where
  "by_hours_desc_name a b = (hours b < hours a \<or> (hours a = hours b \<and> name a \<le> name b))"

text \<open>
  \<open>self.sort_hours\<close> is \<open>None\<close>, \<open>'asc'\<close> or \<open>'desc'\<close>; any other value leaves the
  default clause in place.
\<close>

definition order_clause :: "string option \<Rightarrow> printer \<Rightarrow> printer \<Rightarrow> bool" where
  "order_clause sort_hours =
     (if sort_hours = Some ''asc'' then by_hours_asc_name
      else if sort_hours = Some ''desc'' then by_hours_desc_name
      else by_name)"

definition fetch_printers :: "store \<Rightarrow> string option \<Rightarrow> printer list" where
  "fetch_printers s sort_hours = order_by (order_clause sort_hours) (printers s)"

section \<open>Schema and migration\<close>

text \<open>
  \<open>initialize_database\<close> works on the data file as it finds it, which may have been
  written by an older version. At this level a table is its list of column definitions
  (name and declaration) and its rows, one value per column; the data file holds the table
  \<open>printers\<close> and the table \<open>service_logs\<close>, each of which may be absent.
\<close>

datatype sqlval = SqlNull | SqlInt int | SqlText string

record table =
  columns :: "(string \<times> string) list"
  table_rows :: "sqlval list list"

record database =
  printers_table :: "table option"
  service_logs_table :: "table option"

definition printers_schema :: "(string \<times> string) list" where
  "printers_schema =
     [(''id'', ''INTEGER PRIMARY KEY AUTOINCREMENT''),
      (''printer_id'', ''TEXT NOT NULL UNIQUE''),
      (''name'', ''TEXT NOT NULL''),
      (''manufacturer'', ''TEXT''),
      (''model'', ''TEXT''),
      (''hours'', ''INTEGER DEFAULT 0''),
      (''nozzle_type'', ''TEXT''),
      (''ams'', ''INTEGER DEFAULT 0'')]"

definition service_logs_schema :: "(string \<times> string) list" where
  "service_logs_schema =
     [(''id'', ''INTEGER PRIMARY KEY AUTOINCREMENT''),
      (''printer_id_fk'', ''INTEGER NOT NULL REFERENCES printers(id) ON DELETE CASCADE''),
      (''note'', ''TEXT NOT NULL''),
      (''created_at'', ''TEXT DEFAULT (datetime('now'))'')]"

text \<open>\<open>CREATE TABLE IF NOT EXISTS\<close>: an existing table is left as it is.\<close>

definition create_table_if_not_exists :: "(string \<times> string) list \<Rightarrow> table option \<Rightarrow> table option" where
  "create_table_if_not_exists schema t =
     (case t of None \<Rightarrow> Some \<lparr>columns = schema, table_rows = []\<rparr> | Some t' \<Rightarrow> Some t')"

text \<open>
  \<open>ALTER TABLE ... ADD COLUMN\<close>: the new column comes last and every existing row reads
  the column's default in it. SQLite compares column names without regard to the case of
  ASCII letters and refuses a name the table already has.
\<close>

definition ascii_lower :: "char \<Rightarrow> char" where
  "ascii_lower c =
     (if 65 \<le> (of_char c :: nat) \<and> (of_char c :: nat) \<le> 90 then char_of (of_char c + (32 :: nat)) else c)"

definition add_column :: "string \<Rightarrow> string \<Rightarrow> sqlval \<Rightarrow> table \<Rightarrow> table result" where
  "add_column cname decl dflt t =
     (if map ascii_lower cname \<in> set (map (\<lambda>c. map ascii_lower (fst c)) (columns t)) then
        Inl (Raise OperationalError (''duplicate column name: '' @ cname))
      else
        Inr (t\<lparr>columns := columns t @ [(cname, decl)],
               table_rows := map (\<lambda>r. r @ [dflt]) (table_rows t)\<rparr>))"

text \<open>
  The statements run one after the other on one connection, each taking effect as it
  completes; the first that fails ends the run with its error. \<open>cols\<close> is read once,
  before either \<open>ALTER TABLE\<close>. Creating the directory of the data file and switching
  on foreign-key enforcement for this connection leave the tables as they are.
\<close>

definition initialize_database :: "database \<Rightarrow> unit result \<times> database" where
  "initialize_database db =
     (let db1 = db\<lparr>printers_table := create_table_if_not_exists printers_schema (printers_table db)\<rparr>;
          db2 = db1\<lparr>service_logs_table :=
                      create_table_if_not_exists service_logs_schema (service_logs_table db1)\<rparr>
      in case printers_table db2 of
           None \<Rightarrow> (Inl (Raise OperationalError ''no such table: printers''), db2)
         | Some t \<Rightarrow>
             (let cols = set (map fst (columns t)) in
              case (if ''nozzle_type'' \<notin> cols then add_column ''nozzle_type'' ''TEXT'' SqlNull t
                    else Inr t) of
                Inl e \<Rightarrow> (Inl e, db2)
              | Inr t1 \<Rightarrow>
                  (case (if ''ams'' \<notin> cols
                         then add_column ''ams'' ''INTEGER DEFAULT 0'' (SqlInt 0) t1
                         else Inr t1) of
                     Inl e \<Rightarrow> (Inl e, db2\<lparr>printers_table := Some t1\<rparr>)
                   | Inr t2 \<Rightarrow> (Inr (), db2\<lparr>printers_table := Some t2\<rparr>))))"

text \<open>The store has the current schema: both tables and the two later columns.\<close>

definition current_schema :: "database \<Rightarrow> bool" where
  "current_schema db =
     (case (printers_table db, service_logs_table db) of
        (Some t, Some l) \<Rightarrow>
          ''nozzle_type'' \<in> set (map fst (columns t)) \<and> ''ams'' \<in> set (map fst (columns t))
      | _ \<Rightarrow> False)"

section \<open>Example stores\<close>

definition mk_printer :: "int \<Rightarrow> string \<Rightarrow> string \<Rightarrow> int \<Rightarrow> printer" where
  "mk_printer i pid nm h =
     \<lparr>db_id = i, printer_id = pid, name = nm, manufacturer = ''Maker'', model = ''Model X'',
      hours = h, nozzle_type = ''0.4 mm'', ams = 0\<rparr>"

definition two_machines :: store where
  "two_machines =
     \<lparr>printers = [mk_printer 1 ''machine'' ''Printer 1'' 5, mk_printer 2 ''machine-2'' ''Printer Copy'' 0],
      service_logs = [], printers_seq = 2, service_logs_seq = 0\<rparr>"


definition printer_with_log :: store where
  "printer_with_log =
     \<lparr>printers = [mk_printer 1 ''p1'' ''Unit A'' 5],
      service_logs = [\<lparr>log_id = 1, printer_id_fk = 1, note_text = ''Initial log entry'',
                       created_at = ''2024-05-01 10:00:00''\<rparr>],
      printers_seq = 1, service_logs_seq = 1\<rparr>"

section \<open>Decimal rendering is injective\<close>

lemma digit_val_digit_char: "d < 10 \<Longrightarrow> digit_val (digit_char d) = d"
  by (simp add: digit_val_def digit_char_def)


lemma nat_of_str_snoc: "nat_of_str (cs @ [c]) = 10 * nat_of_str cs + digit_val c"
  by (simp add: nat_of_str_def)

lemma nat_of_str_str_nat: "nat_of_str (str_nat n) = n"
proof (induction n rule: str_nat.induct)
  case (1 n)
  show ?case
  proof (cases "n < 10")
    case True
    then show ?thesis
      by (subst str_nat.simps) (simp add: nat_of_str_def digit_val_digit_char)
  next
    case False
    with 1 have "nat_of_str (str_nat (n div 10)) = n div 10" by simp
    with False show ?thesis
      by (subst str_nat.simps) (simp add: nat_of_str_snoc digit_val_digit_char)
  qed
qed

lemma str_nat_inj: "str_nat m = str_nat n \<Longrightarrow> m = n"
  by (metis nat_of_str_str_nat)

lemma str_nat_nonempty: "str_nat n \<noteq> []"
  by (subst str_nat.simps) simp

lemma spec_candidate_inj: "1 \<le> j \<Longrightarrow> 1 \<le> k \<Longrightarrow> spec_candidate b j = spec_candidate b k \<Longrightarrow> j = k"
  by (auto simp: spec_candidate_def dest: str_nat_inj split: if_splits)

lemma probe_loop_reaches:
  assumes "\<not> select_printer_id_exists s (spec_candidate b k)"
    and "\<forall>j. idx \<le> j \<and> j < k \<longrightarrow> select_printer_id_exists s (spec_candidate b j)"
    and "1 \<le> idx" and "idx \<le> k"
  shows "probe_loop s b idx (spec_candidate b idx) = Some (spec_candidate b k, k)"
  using assms
proof (induction "k - idx" arbitrary: idx)
  case 0
  then have "idx = k" by simp
  with 0 show ?case by (subst probe_loop.simps) simp
next
  case (Suc d)
  then have lt: "idx < k" by simp
  with Suc.prems have ex: "select_printer_id_exists s (spec_candidate b idx)" by simp
  have next_c: "b @ ''-'' @ str_nat (idx + 1) = spec_candidate b (idx + 1)"
    using Suc.prems(3) by (simp add: spec_candidate_def)
  have "probe_loop s b (idx + 1) (spec_candidate b (idx + 1)) = Some (spec_candidate b k, k)"
    using Suc.hyps Suc.prems lt by (intro Suc.hyps(1)) auto
  with ex next_c show ?case by (subst probe_loop.simps) simp
qed

lemma absent_candidate_exists:
  "\<exists>k. 1 \<le> k \<and> k \<le> length (printers s) + 1 \<and> \<not> select_printer_id_exists s (spec_candidate b k)"
proof (rule ccontr)
  assume "\<not> ?thesis"
  then have all: "\<forall>k. 1 \<le> k \<and> k \<le> length (printers s) + 1 \<longrightarrow> spec_candidate b k \<in> printer_id ` set (printers s)"
    unfolding select_printer_id_exists_def by (metis imageI)
  let ?K = "{1 .. length (printers s) + 1}"
  have "inj_on (spec_candidate b) ?K"
    by (rule inj_onI) (metis spec_candidate_inj atLeastAtMost_iff)
  then have "card (spec_candidate b ` ?K) = length (printers s) + 1"
    by (simp add: card_image)
  moreover have "spec_candidate b ` ?K \<subseteq> printer_id ` set (printers s)"
    using all by auto
  then have "card (spec_candidate b ` ?K) \<le> card (printer_id ` set (printers s))"
    by (intro card_mono) auto
  moreover have "card (printer_id ` set (printers s)) \<le> length (printers s)"
    by (metis card_image_le card_length le_trans List.finite_set)
  ultimately show False by simp
qed

lemma first_absent_candidate:
  "\<exists>k. 1 \<le> k \<and> k \<le> length (printers s) + 1 \<and> \<not> select_printer_id_exists s (spec_candidate b k)
     \<and> (\<forall>j. 1 \<le> j \<and> j < k \<longrightarrow> select_printer_id_exists s (spec_candidate b j))"
proof -
  let ?P = "\<lambda>k. 1 \<le> k \<and> \<not> select_printer_id_exists s (spec_candidate b k)"
  obtain k0 where k0: "?P k0" "k0 \<le> length (printers s) + 1"
    using absent_candidate_exists [of s b] by blast
  define k where "k = (LEAST k. ?P k)"
  have Pk: "?P k" unfolding k_def using k0(1) by (rule LeastI)
  have le: "k \<le> k0" unfolding k_def using k0(1) by (rule Least_le)
  have "\<forall>j. 1 \<le> j \<and> j < k \<longrightarrow> select_printer_id_exists s (spec_candidate b j)"
    unfolding k_def using not_less_Least by blast
  with Pk le k0(2) show ?thesis by (intro exI [of _ k]) auto
qed

lemma probe_loop_first_absent:
  "\<exists>k. 1 \<le> k \<and> k \<le> length (printers s) + 1
     \<and> probe_loop s b 1 b = Some (spec_candidate b k, k)
     \<and> \<not> select_printer_id_exists s (spec_candidate b k)
     \<and> (\<forall>j. 1 \<le> j \<and> j < k \<longrightarrow> select_printer_id_exists s (spec_candidate b j))"
proof -
  obtain k where k: "1 \<le> k" "k \<le> length (printers s) + 1"
      "\<not> select_printer_id_exists s (spec_candidate b k)"
      "\<forall>j. 1 \<le> j \<and> j < k \<longrightarrow> select_printer_id_exists s (spec_candidate b j)"
    using first_absent_candidate [of s b] by blast
  have "probe_loop s b 1 (spec_candidate b 1) = Some (spec_candidate b k, k)"
    using k by (intro probe_loop_reaches) auto
  then have "probe_loop s b 1 b = Some (spec_candidate b k, k)"
    by (simp add: spec_candidate_def)
  with k show ?thesis by blast
qed


lemma spec_base_eq: "spec_base b = str_or (strip b) ''printer''"
  by (simp add: spec_base_def str_or_def)

text \<open>
  Claim C2. For every input string and every store, \<open>ensure_unique_printer_id\<close> trims the
  input, takes \<open>"printer"\<close> when nothing is left, and returns the first element of the
  sequence base, base-2, base-3, ... that no stored printer has as its \<open>printer_id\<close>: it
  returns the \<open>k\<close>-th candidate for some \<open>k\<close>, that candidate is absent, and every
  earlier candidate is present.
\<close>

theorem ensure_unique_printer_id_first_free:
  "\<exists>k\<ge>1. ensure_unique_printer_id s b = Some (spec_candidate (spec_base b) k)
     \<and> \<not> select_printer_id_exists s (spec_candidate (spec_base b) k)
     \<and> (\<forall>j. 1 \<le> j \<and> j < k \<longrightarrow> select_printer_id_exists s (spec_candidate (spec_base b) j))"
proof -
  obtain k where k: "1 \<le> k"
      "probe_loop s (spec_base b) 1 (spec_base b) = Some (spec_candidate (spec_base b) k, k)"
      "\<not> select_printer_id_exists s (spec_candidate (spec_base b) k)"
      "\<forall>j. 1 \<le> j \<and> j < k \<longrightarrow> select_printer_id_exists s (spec_candidate (spec_base b) j)"
    using probe_loop_first_absent [of s "spec_base b"] by blast
  have "ensure_unique_printer_id s b = Some (spec_candidate (spec_base b) k)"
    using k(2) by (simp add: ensure_unique_printer_id_def ensure_unique_printer_id_probes_def spec_base_eq)
  with k show ?thesis by blast
qed

lemma two_machines_exists:
  "select_printer_id_exists two_machines c \<longleftrightarrow> c = ''machine'' \<or> c = ''machine-2''"
  by (auto simp: select_printer_id_exists_def two_machines_def mk_printer_def)

lemma spec_base_machine: "spec_base ''  machine '' = ''machine''"
  by (simp add: spec_base_def strip_def is_space_def)

lemma str_nat_2: "str_nat 2 = ''2''" by code_simp
lemma str_nat_3: "str_nat 3 = ''3''" by code_simp

text \<open>
  The instance of the specification: with \<open>machine\<close> and \<open>machine-2\<close> stored, the
  first two candidates are present and the result is \<open>machine-3\<close>.
\<close>

theorem ensure_unique_printer_id_first_free_witness:
  "ensure_unique_printer_id two_machines ''  machine '' = Some ''machine-3''"
proof -
  obtain k where k: "1 \<le> k"
      "ensure_unique_printer_id two_machines ''  machine '' = Some (spec_candidate ''machine'' k)"
      "\<not> select_printer_id_exists two_machines (spec_candidate ''machine'' k)"
      "\<forall>j. 1 \<le> j \<and> j < k \<longrightarrow> select_printer_id_exists two_machines (spec_candidate ''machine'' j)"
    using ensure_unique_printer_id_first_free [of two_machines "''  machine ''"]
    unfolding spec_base_machine by blast
  have c3: "spec_candidate ''machine'' 3 = ''machine-3''"
    by (simp add: spec_candidate_def str_nat_3)
  have "k \<noteq> 1" using k(3) by (auto simp: two_machines_exists spec_candidate_def)
  moreover have "k \<noteq> 2" using k(3) by (auto simp: two_machines_exists spec_candidate_def str_nat_2)
  moreover have "\<not> 3 < k"
  proof
    assume "3 < k"
    with k(4) have "select_printer_id_exists two_machines (spec_candidate ''machine'' 3)" by simp
    then show False by (simp add: c3 two_machines_exists)
  qed
  ultimately have "k = 3" using k(1) by arith
  with k(2) c3 show ?thesis by simp
qed


lemma ensure_unique_printer_id_blank:
  "ensure_unique_printer_id empty_store ''   '' = Some ''printer''"
  by (subst ensure_unique_printer_id_def, subst ensure_unique_printer_id_probes_def,
      simp add: strip_def is_space_def str_or_def, subst probe_loop.simps,
      simp add: select_printer_id_exists_def empty_store_def)

lemma store_printers_same: "s\<lparr>printers := printers s\<rparr> = s" by simp
lemma store_logs_same: "s\<lparr>service_logs := service_logs s\<rparr> = s" by simp


section \<open>Updating a log\<close>

text \<open>
  Claim C6. For every existing service log, \<open>update_log\<close> replaces the note only: the
  log's \<open>created_at\<close>, its id and its \<open>printer_id_fk\<close> are after the update what they
  were before (as are those of every other log, and the printers), and on success the note
  is the trimmed new text.
\<close>

theorem update_log_replaces_note_only:
  assumes "k < length (service_logs s)" and "log_id (service_logs s ! k) = i"
  shows "length (service_logs (snd (update_log s i txt))) = length (service_logs s)
       \<and> printers (snd (update_log s i txt)) = printers s
       \<and> (\<forall>j < length (service_logs s).
            created_at (service_logs (snd (update_log s i txt)) ! j) = created_at (service_logs s ! j)
          \<and> log_id (service_logs (snd (update_log s i txt)) ! j) = log_id (service_logs s ! j)
          \<and> printer_id_fk (service_logs (snd (update_log s i txt)) ! j) = printer_id_fk (service_logs s ! j))
       \<and> (sqlite_int_ok i \<longrightarrow>
            fst (update_log s i txt) = Inr ()
          \<and> note_text (service_logs (snd (update_log s i txt)) ! k) = strip txt)"
  using assms by (simp add: update_log_def sql_update_log_def)

text \<open>The log of the example store keeps its timestamp and takes the trimmed text.\<close>

lemma sqlite_int_ok_1: "sqlite_int_ok 1" by (simp add: sqlite_int_ok_def)

theorem update_log_replaces_note_only_witness:
  "note_text (service_logs (snd (update_log printer_with_log 1 '' Updated log entry '')) ! 0) = ''Updated log entry''
 \<and> created_at (service_logs (snd (update_log printer_with_log 1 '' Updated log entry '')) ! 0) = ''2024-05-01 10:00:00''
 \<and> fst (update_log printer_with_log 1 '' Updated log entry '') = Inr ()"
proof -
  have k: "0 < length (service_logs printer_with_log)" by (simp add: printer_with_log_def)
  have i: "log_id (service_logs printer_with_log ! 0) = 1" by (simp add: printer_with_log_def)
  have st: "strip '' Updated log entry '' = ''Updated log entry''" by (simp add: strip_def is_space_def)
  have c: "created_at (service_logs printer_with_log ! 0) = ''2024-05-01 10:00:00''"
    by (simp add: printer_with_log_def)
  from update_log_replaces_note_only [OF k i, of "'' Updated log entry ''"] sqlite_int_ok_1 k st c
  show ?thesis by simp
qed

section \<open>Updating a row that is not there\<close>




section \<open>Inserting a printer: validation and uniqueness\<close>












end
